theory Spec2Isabelle
  imports Main "HOL-Library.Word"
begin

section \<open>Python values, exceptions and gym spaces\<close>

text \<open>
  The exceptions the modelled code raises (or lets through from numpy, gym and ray).
  A method that can raise returns \<open>py_exc + 'r\<close>, with \<open>Inl\<close> for the exception.
\<close>

datatype py_exc =
    AssertionError
  | NotImplementedError
  | KeyError
  | TypeError
  | AttributeError
  | OverflowError
  | ValueError

text \<open>
  Tasks and encodings are dynamically typed in the source. \<open>PInt i\<close> is a Python
  \<open>int\<close> (unbounded); \<open>PObj x\<close> is any other hashable object that is not a number
  (a string, a tuple of names, ...). Python's \<open>None\<close> as a result is \<open>None\<close> of
  \<open>option\<close>.
\<close>

datatype 'a pyval = PInt int | PObj 'a

text \<open>
  What \<open>_sum_axes\<close> is applied to: an integer (an \<open>np.int64\<close>, or an \<open>int\<close> that
  fits 64 bits), a list or array of such, or anything else. \<open>nvec\<close> of a
  \<open>MultiDiscrete\<close> space is an array of \<open>np.int64\<close>, given by its entries.
\<close>

datatype axes = Size int | Sizes "axes list" | NoSize

text \<open>
  The gym spaces the source distinguishes with \<open>isinstance\<close>. A \<open>Box\<close> is kept
  by its membership test \<open>space.contains(np.asarray(x, dtype=space.dtype))\<close>, which can
  raise inside numpy; \<open>MultiBinary\<close> carries gym's attribute \<open>n\<close> (it has no
  attribute \<open>nvec\<close>); \<open>Graph\<close> stands for every other kind of space.
\<close>

datatype 'a space =
    Discrete int
  | Box "'a pyval \<Rightarrow> py_exc + bool"
  | Tuple "'a space list"
  | Dict "(string \<times> 'a space) list"
  | MultiBinary int
  | MultiDiscrete "axes list"
  | Graph

section \<open>The task space (syllabus/task\_space/task\_space.py)\<close>

text \<open>
  \<open>_encoder\<close> and \<open>_decoder\<close> are closures. The Discrete pair reads
  \<open>self._encode_map\<close> and \<open>self._decode_map\<close> when it is called; the Box pair has
  captured the space it was built for.
\<close>

datatype 'a coder = ViaMaps | ViaBox "'a pyval \<Rightarrow> py_exc + bool"

record 'a task_space =
  gym_space :: "'a space option"
  coder :: "'a coder"
  encode_map :: "'a pyval \<rightharpoonup> int"
  decode_map :: "int \<rightharpoonup> 'a pyval"
  tasks :: "'a pyval set"

text \<open>A dict comprehension: a later pair with the same key replaces the earlier one.\<close>

definition dict_of :: "('k \<times> 'v) list \<Rightarrow> ('k \<rightharpoonup> 'v)" where
  "dict_of kvs = fold (\<lambda>(k, v) m. m(k \<mapsto> v)) kvs Map.empty"

text \<open>
  \<open>_make_task_encoder(space, tasks)\<close>, with \<open>tasks\<close> in the order in which
  \<open>enumerate\<close> walks it. The Tuple branch compares \<open>space.spaces\<close> with a length,
  which is never equal, so a first task with a length fails the assertion and an
  \<open>int\<close> task fails \<open>len\<close> itself.
\<close>

definition make_task_encoder ::
  "'a task_space \<Rightarrow> 'a space option \<Rightarrow> 'a pyval list \<Rightarrow> py_exc + 'a task_space" where
  "make_task_encoder self space ts =
     (case space of
        Some (Discrete n) \<Rightarrow>
          if n = int (length ts)
          then Inr (self\<lparr>coder := ViaMaps,
                 encode_map := dict_of (map (\<lambda>(i, task). (task, int i)) (enumerate 0 ts)),
                 decode_map := dict_of (map (\<lambda>(i, task). (int i, task)) (enumerate 0 ts))\<rparr>)
          else Inl AssertionError
      | Some (Box f) \<Rightarrow> Inr (self\<lparr>coder := ViaBox f\<rparr>)
      | Some (Tuple spaces) \<Rightarrow>
          (case ts of
             [] \<Rightarrow> Inl NotImplementedError
           | PInt i # rest \<Rightarrow> Inl TypeError
           | PObj x # rest \<Rightarrow> Inl AssertionError)
      | _ \<Rightarrow> Inl NotImplementedError)"

definition TaskSpace_init :: "'a space option \<Rightarrow> 'a pyval list \<Rightarrow> py_exc + 'a task_space" where
  "TaskSpace_init space ts =
     (case make_task_encoder
             \<lparr>gym_space = space, coder = ViaMaps, encode_map = Map.empty,
              decode_map = Map.empty, tasks = {}\<rparr> space ts of
        Inl e \<Rightarrow> Inl e
      | Inr self \<Rightarrow> Inr (self\<lparr>tasks := set ts\<rparr>))"

text \<open>The two lambdas behind \<open>self._encoder\<close> and \<open>self._decoder\<close>.\<close>

definition encoder :: "'a task_space \<Rightarrow> 'a pyval \<Rightarrow> py_exc + 'a pyval option" where
  "encoder self task =
     (case coder self of
        ViaMaps \<Rightarrow>
          (case encode_map self task of
             None \<Rightarrow> Inl KeyError
           | Some i \<Rightarrow> Inr (Some (PInt i)))
      | ViaBox f \<Rightarrow>
          (case f task of
             Inl e \<Rightarrow> Inl e
           | Inr b \<Rightarrow> Inr (if b then Some task else None)))"

definition decoder :: "'a task_space \<Rightarrow> 'a pyval \<Rightarrow> py_exc + 'a pyval option" where
  "decoder self task =
     (case coder self of
        ViaMaps \<Rightarrow>
          (case task of
             PInt i \<Rightarrow>
               (case decode_map self i of
                  None \<Rightarrow> Inl KeyError
                | Some t \<Rightarrow> Inr (Some t))
           | PObj x \<Rightarrow> Inl KeyError)
      | ViaBox f \<Rightarrow>
          (case f task of
             Inl e \<Rightarrow> Inl e
           | Inr b \<Rightarrow> Inr (if b then Some task else None)))"

text \<open>
  \<open>space.contains(np.asarray(x, dtype=space.dtype))\<close>. The dtype of a Discrete space
  is \<open>np.int64\<close>: numpy raises OverflowError for a Python int outside the 64-bit
  range and ValueError for an object that is no number, such as a string or a tuple of
  strings; \<open>Discrete.contains\<close> then tests \<open>0 <= x < n\<close>. The constructor of \<open>TaskSpace\<close> accepts Discrete and Box
  spaces only, so no task space holds one of the other kinds.
\<close>

fun space_contains :: "'a space \<Rightarrow> 'a pyval \<Rightarrow> py_exc + bool" where
  "space_contains (Discrete n) (PInt i) =
     (if - (2 ^ 63) \<le> i \<and> i < 2 ^ 63 then Inr (0 \<le> i \<and> i < n) else Inl OverflowError)"
| "space_contains (Discrete n) (PObj x) = Inl ValueError"
| "space_contains (Box f) x = f x"
| "space_contains other x = Inl NotImplementedError"

definition decode :: "'a task_space \<Rightarrow> 'a pyval \<Rightarrow> py_exc + 'a pyval option" where
  "decode self encoding =
     (case gym_space self of
        None \<Rightarrow> Inl AttributeError
      | Some sp \<Rightarrow>
          (case space_contains sp encoding of
             Inl e \<Rightarrow> Inl e
           | Inr b \<Rightarrow> if \<not> b then Inr None else decoder self encoding))"

text \<open>\<open>encode\<close>: \<open>except Exception\<close> turns every exception of the encoder into \<open>None\<close>.\<close>

definition encode :: "'a task_space \<Rightarrow> 'a pyval \<Rightarrow> py_exc + 'a pyval option" where
  "encode self task =
     (case encoder self task of
        Inl e \<Rightarrow> Inr None
      | Inr r \<Rightarrow> Inr r)"

text \<open>
  The argument \<open>amount\<close> of \<open>increase_space\<close>: an \<open>int\<close>, or a \<open>float\<close> given by
  mantissa and exponent. Only its type is looked at.
\<close>

datatype amount = IntAmount int | FloatAmount int int

text \<open>
  \<open>increase_space\<close> has one branch only: with a space that is not Discrete the body
  falls off its end, and the call returns \<open>None\<close>. The constructor \<open>Discrete\<close> of
  gym asserts that the new size is positive.
\<close>

definition increase_space :: "'a task_space \<Rightarrow> amount \<Rightarrow> py_exc + 'a space option" where
  "increase_space self amt =
     (case gym_space self of
        Some (Discrete n) \<Rightarrow>
          (case amt of
             IntAmount k \<Rightarrow>
               if 0 < n + k then Inr (Some (Discrete (n + k))) else Inl AssertionError
           | FloatAmount m e \<Rightarrow> Inl AssertionError)
      | _ \<Rightarrow> Inr None)"

text \<open>
  \<open>add_task\<close> mutates the object step by step, so an exception leaves the steps before
  it in place: the result is the exception raised (if any) and the object afterwards.
  \<open>_make_task_encoder\<close> is handed the set \<open>self._tasks\<close>; \<open>order\<close> is the order in
  which the Python runtime iterates a set.
\<close>

definition add_task ::
  "('a pyval set \<Rightarrow> 'a pyval list) \<Rightarrow> 'a task_space \<Rightarrow> 'a pyval \<Rightarrow> py_exc option \<times> 'a task_space" where
  "add_task order self task =
     (if task \<notin> tasks self then
        (let s1 = self\<lparr>tasks := insert task (tasks self)\<rparr> in
         case increase_space s1 (IntAmount 1) of
           Inl e \<Rightarrow> (Some e, s1)
         | Inr g \<Rightarrow>
             (let s2 = s1\<lparr>gym_space := g\<rparr> in
              case make_task_encoder s2 (gym_space s2) (order (tasks s2)) of
                Inl e \<Rightarrow> (Some e, s2)
              | Inr s3 \<Rightarrow> (None, s3)))
      else (None, self))"

text \<open>
  \<open>np.prod\<close> over \<open>np.int64\<close> values multiplies in 64-bit two's complement.
\<close>

definition np_prod :: "int list \<Rightarrow> int" where
  "np_prod xs = sint (fold (\<lambda>x acc. acc * word_of_int x) xs (1 :: 64 word))"

text \<open>A list comprehension of calls: the first call that raises ends it.\<close>

fun collect :: "(py_exc + 'r) list \<Rightarrow> py_exc + 'r list" where
  "collect [] = Inr []"
| "collect (Inl e # rs) = Inl e"
| "collect (Inr r # rs) = (case collect rs of Inl e \<Rightarrow> Inl e | Inr vs \<Rightarrow> Inr (r # vs))"

fun sum_axes :: "axes \<Rightarrow> py_exc + int" where
  "sum_axes (Size k) = Inr k"
| "sum_axes (Sizes xs) =
     (case collect (map sum_axes xs) of
        Inl e \<Rightarrow> Inl e
      | Inr ks \<Rightarrow> Inr (np_prod ks))"
| "sum_axes NoSize = Inl NotImplementedError"

text \<open>
  Python's \<open>sum\<close> over the counts of the subspaces: adding \<open>None\<close> (the count of a
  Box) to an int raises TypeError.
\<close>

fun py_sum :: "int option list \<Rightarrow> py_exc + int" where
  "py_sum [] = Inr 0"
| "py_sum (None # cs) = Inl TypeError"
| "py_sum (Some c # cs) = (case py_sum cs of Inl e \<Rightarrow> Inl e | Inr s \<Rightarrow> Inr (c + s))"

text \<open>
  Binding a call \<open>self.count_tasks(kw=s)\<close>: the method's only parameter besides
  \<open>self\<close> is named \<open>gym_space\<close>, and any other keyword is a TypeError.
\<close>

definition bind_count_tasks :: "string \<Rightarrow> py_exc + unit" where
  "bind_count_tasks kw = (if kw = ''gym_space'' then Inr () else Inl TypeError)"

text \<open>
  The body of \<open>count_tasks\<close> on a space. The recursive calls of the Tuple and Dict
  branches are written \<open>self.count_tasks(task_space=s)\<close> in the source.
\<close>

fun count_space :: "'a space \<Rightarrow> py_exc + int option" where
  "count_space (Discrete n) = Inr (Some n)"
| "count_space (Box f) = Inr None"
| "count_space (Tuple spaces) =
     (case collect (map (\<lambda>s. case bind_count_tasks ''task_space'' of
                                 Inl e \<Rightarrow> Inl e
                               | Inr u \<Rightarrow> count_space s) spaces) of
        Inl e \<Rightarrow> Inl e
      | Inr cs \<Rightarrow> (case py_sum cs of Inl e \<Rightarrow> Inl e | Inr s \<Rightarrow> Inr (Some s)))"
| "count_space (Dict spaces) =
     (case collect (map (\<lambda>s. case bind_count_tasks ''task_space'' of
                                 Inl e \<Rightarrow> Inl e
                               | Inr u \<Rightarrow> count_space s) (map snd spaces)) of
        Inl e \<Rightarrow> Inl e
      | Inr cs \<Rightarrow> (case py_sum cs of Inl e \<Rightarrow> Inl e | Inr s \<Rightarrow> Inr (Some s)))"
| "count_space (MultiBinary n) = Inl AttributeError"
| "count_space (MultiDiscrete nvec) =
     (case sum_axes (Sizes nvec) of Inl e \<Rightarrow> Inl e | Inr k \<Rightarrow> Inr (Some k))"
| "count_space Graph = Inl NotImplementedError"

text \<open>
  \<open>count_tasks(gym_space=None)\<close>: \<open>None\<close> means the task space's own domain, and a
  task space whose own domain is \<open>None\<close> counts 0.
\<close>

definition count_tasks :: "'a task_space \<Rightarrow> 'a space option \<Rightarrow> py_exc + int option" where
  "count_tasks self gs =
     (case (case gs of None \<Rightarrow> gym_space self | Some g \<Rightarrow> Some g) of
        None \<Rightarrow> Inr (Some 0)
      | Some g \<Rightarrow> count_space g)"

definition num_tasks :: "'a task_space \<Rightarrow> py_exc + int option" where
  "num_tasks self = count_tasks self None"

section \<open>Concrete task spaces\<close>

text \<open>
  \<open>TaskSpace(Discrete(2), ["a", "a"])\<close> and \<open>TaskSpace(Discrete(2), ["a", "b"])\<close>
  as the constructor leaves them.
\<close>

definition dup_space :: "string task_space" where
  "dup_space =
     \<lparr>gym_space = Some (Discrete 2), coder = ViaMaps,
      encode_map = [PObj ''a'' \<mapsto> 1],
      decode_map = [0 \<mapsto> PObj ''a'', 1 \<mapsto> PObj ''a''],
      tasks = {PObj ''a''}\<rparr>"

definition ab_space :: "string task_space" where
  "ab_space =
     \<lparr>gym_space = Some (Discrete 2), coder = ViaMaps,
      encode_map = [PObj ''a'' \<mapsto> 0, PObj ''b'' \<mapsto> 1],
      decode_map = [0 \<mapsto> PObj ''a'', 1 \<mapsto> PObj ''b''],
      tasks = {PObj ''a'', PObj ''b''}\<rparr>"

text \<open>
  The order in which CPython iterates a set of non-negative ints that are smaller
  than the number of slots of its hash table (8 for a set of up to four elements): the
  hash of such an int is the int itself and is its slot, and the walk goes through the
  slots, so it is ascending. The function is meant for such sets only.
\<close>

fun int_key :: "'a pyval \<Rightarrow> int" where
  "int_key (PInt i) = i"
| "int_key (PObj x) = 0"

definition ascending :: "'a pyval set \<Rightarrow> 'a pyval list" where
  "ascending S = map PInt (sorted_list_of_set (int_key ` S))"

text \<open>\<open>TaskSpace(Discrete(2), [1, 0])\<close> as the constructor leaves it.\<close>

definition ints_10 :: "unit task_space" where
  "ints_10 =
     \<lparr>gym_space = Some (Discrete 2), coder = ViaMaps,
      encode_map = [PInt 1 \<mapsto> 0, PInt 0 \<mapsto> 1],
      decode_map = [0 \<mapsto> PInt 1, 1 \<mapsto> PInt 0],
      tasks = {PInt 1, PInt 0}\<rparr>"

text \<open>\<open>TaskSpace(box, [])\<close> for a Box with membership test \<open>f\<close>.\<close>

definition box_space :: "('a pyval \<Rightarrow> py_exc + bool) \<Rightarrow> 'a task_space" where
  "box_space f =
     \<lparr>gym_space = Some (Box f), coder = ViaBox f,
      encode_map = Map.empty, decode_map = Map.empty, tasks = {}\<rparr>"

section \<open>The queue synchronization engine (syllabus/core/curriculum\_sync\_wrapper.py)\<close>

text \<open>
  The curriculum is an object of a class that is not part of these sources: its state
  is a value of type \<open>'c\<close> and its methods are parameters. \<open>sample\<close> returns the
  sampled tasks and the curriculum afterwards.
\<close>

record 'p update =
  request_sample :: "bool option"
  outcome :: 'p

record ('c, 't, 'p) curriculum_ops =
  sample :: "'c \<Rightarrow> nat \<Rightarrow> 't list \<times> 'c"
  batch_update_curriculum :: "'c \<Rightarrow> 'p update list \<Rightarrow> 'c"
  curriculum_add_task :: "'c \<Rightarrow> 't \<Rightarrow> 'c"
  curriculum_log_metrics :: "'c \<Rightarrow> 'c"

text \<open>
  What a worker puts on the update queue: one update (a dict) or a list of updates.
  An update is a dict whose key \<open>request_sample\<close> may be absent.
\<close>

datatype 'p queued_update = Single "'p update" | Batch "'p update list"

text \<open>
  An assignment message. The seed messages of \<open>start\<close> have the key
  \<open>next_task\<close> only; the messages of the consumer loop also carry \<open>added_tasks\<close>.
\<close>

record 't message =
  next_task :: 't
  added_tasks_key :: "'t list option"

text \<open>
  Where the consumer thread stands in \<open>_update_queues\<close>: at the test of the outer
  \<open>while\<close>, inside the inner \<open>while\<close> with the current value of
  \<open>requested_tasks\<close>, inside the \<open>for\<close> loop with the tasks still to dispatch, or
  in \<open>time.sleep\<close>.
\<close>

datatype 't control =
    NotStarted
  | LoopHead
  | Draining nat
  | Dispatching "'t list"
  | Sleeping
  | Exited

text \<open>
  The wrapper object. A queue is the list of its contents, oldest first, and
  \<open>update_queue\<close> may be \<open>None\<close>. \<open>sent\<close>, \<open>consumed\<close> and \<open>gauge\<close> are not
  fields of the source: they record every message ever put on the task queue, every
  update entry ever taken from the update queue, and every value that \<open>log_metrics\<close>
  has written for \<open>curriculum/task_queue_length\<close>, so that a whole run can be
  spoken about.
\<close>

record ('c, 't, 'p) engine =
  curriculum :: 'c
  num_envs :: nat
  task_queue :: "'t message list"
  update_queue :: "'p queued_update list option"
  update_thread :: "'t control"
  should_update :: bool
  queued_tasks :: int
  added_tasks :: "'t list"
  sent :: "'t message list"
  consumed :: "'p update list"
  gauge :: "int list"

definition MultiProcessingCurriculumWrapper_init ::
  "'c \<Rightarrow> nat \<Rightarrow> 't message list \<Rightarrow> 'p queued_update list option \<Rightarrow> ('c, 't, 'p) engine" where
  "MultiProcessingCurriculumWrapper_init cur n tq uq =
     \<lparr>curriculum = cur, num_envs = n, task_queue = tq, update_queue = uq,
      update_thread = NotStarted, should_update = False, queued_tasks = 0,
      added_tasks = [], sent = [], consumed = [], gauge = []\<rparr>"

definition put :: "'t message \<Rightarrow> ('c, 't, 'p) engine \<Rightarrow> ('c, 't, 'p) engine" where
  "put msg self = self\<lparr>task_queue := task_queue self @ [msg], sent := sent self @ [msg]\<rparr>"

text \<open>
  \<open>start\<close>: one call of \<open>sample\<close>, one seed message per sampled task, then the
  thread is started.
\<close>

definition start :: "('c, 't, 'p) curriculum_ops \<Rightarrow> ('c, 't, 'p) engine \<Rightarrow> ('c, 't, 'p) engine" where
  "start ops self =
     (let (initial_tasks, cur) = sample ops (curriculum self) (num_envs self);
          s1 = self\<lparr>should_update := True, curriculum := cur\<rparr>;
          s2 = fold (\<lambda>task. put \<lparr>next_task = task, added_tasks_key = None\<rparr>) initial_tasks s1
      in s2\<lparr>update_thread := LoopHead\<rparr>)"

definition stop :: "('c, 't, 'p) engine \<Rightarrow> ('c, 't, 'p) engine" where
  "stop self = self\<lparr>should_update := False\<rparr>"

text \<open>\<open>add_task\<close> of the wrapper: the facade's delegation, then the append.\<close>

definition mp_add_task ::
  "('c, 't, 'p) curriculum_ops \<Rightarrow> 't \<Rightarrow> ('c, 't, 'p) engine \<Rightarrow> ('c, 't, 'p) engine" where
  "mp_add_task ops task self =
     self\<lparr>curriculum := curriculum_add_task ops (curriculum self) task,
          added_tasks := added_tasks self @ [task]\<rparr>"

text \<open>
  \<open>log_metrics\<close> of the wrapper: the facade's delegation, then the scalar
  \<open>curriculum/task_queue_length\<close> with the value of \<open>queued_tasks\<close>. The owner
  calls it while the consumer thread runs.
\<close>

definition mp_log_metrics ::
  "('c, 't, 'p) curriculum_ops \<Rightarrow> ('c, 't, 'p) engine \<Rightarrow> ('c, 't, 'p) engine" where
  "mp_log_metrics ops self =
     self\<lparr>curriculum := curriculum_log_metrics ops (curriculum self),
          gauge := gauge self @ [queued_tasks self]\<rparr>"

text \<open>\<open>if isinstance(batch_updates, dict): batch_updates = [batch_updates]\<close>\<close>

fun as_batch :: "'p queued_update \<Rightarrow> 'p update list" where
  "as_batch (Single u) = [u]"
| "as_batch (Batch us) = us"

text \<open>
  \<open>sum([result["request_sample"] for result in batch_updates if "request_sample" in result])\<close>:
  a bool counts as 1 or 0.
\<close>

fun requests_in :: "'p update list \<Rightarrow> nat" where
  "requests_in [] = 0"
| "requests_in (result # rest) =
     (case request_sample result of
        None \<Rightarrow> requests_in rest
      | Some flag \<Rightarrow> (if flag then 1 else 0) + requests_in rest)"

text \<open>
  The consumer thread in \<open>_update_queues\<close>, one pass through a loop body at a
  time, as the thread itself runs it while nothing else happens in between and no
  call raises. In the inner \<open>while\<close> a pass takes one item from the update queue,
  counts its requests, subtracts them from \<open>queued_tasks\<close> and hands the batch to
  \<open>batch_update_curriculum\<close>; when the queue is \<open>None\<close> or empty the loop is left,
  and \<open>sample\<close> is called if anything was requested. In the \<open>for\<close> loop a pass
  puts one message, counts it and empties \<open>added_tasks\<close>.
\<close>

definition thread_step ::
  "('c, 't, 'p) curriculum_ops \<Rightarrow> ('c, 't, 'p) engine \<Rightarrow> ('c, 't, 'p) engine" where
  "thread_step ops self =
     (case update_thread self of
        NotStarted \<Rightarrow> self
      | LoopHead \<Rightarrow>
          if should_update self then self\<lparr>update_thread := Draining 0\<rparr>
          else self\<lparr>update_thread := Exited\<rparr>
      | Draining requested_tasks \<Rightarrow>
          (case update_queue self of
             Some (item # rest) \<Rightarrow>
               (let batch_updates = as_batch item;
                    requests = requests_in batch_updates
                in self\<lparr>update_queue := Some rest,
                        consumed := consumed self @ batch_updates,
                        update_thread := Draining (requested_tasks + requests),
                        queued_tasks := queued_tasks self - int requests,
                        curriculum := batch_update_curriculum ops (curriculum self) batch_updates\<rparr>)
           | _ \<Rightarrow>
               if requested_tasks > 0
               then (let (new_tasks, cur) = sample ops (curriculum self) requested_tasks
                     in self\<lparr>curriculum := cur, update_thread := Dispatching new_tasks\<rparr>)
               else self\<lparr>update_thread := Sleeping\<rparr>)
      | Dispatching [] \<Rightarrow> self\<lparr>update_thread := Sleeping\<rparr>
      | Dispatching (task # rest) \<Rightarrow>
          (put \<lparr>next_task = task, added_tasks_key = Some (added_tasks self)\<rparr> self)
            \<lparr>queued_tasks := queued_tasks self + 1, added_tasks := [],
             update_thread := Dispatching rest\<rparr>
      | Sleeping \<Rightarrow> self\<lparr>update_thread := LoopHead\<rparr>
      | Exited \<Rightarrow> self)"

text \<open>
  \<open>thread_step\<close> is the loop as the consumer thread itself runs through it. The owner
  of the wrapper and the workers run at the same time, so what they can see needs the
  single statements. A consumer thread stands at one of these points, each before the
  statement it names: the test of the outer \<open>while\<close>; the test of the inner
  \<open>while\<close>, \<open>update_queue.get()\<close>, the read and the write of
  \<open>self.queued_tasks -= requests\<close>, and \<open>batch_update_curriculum\<close>, all with the
  value of \<open>requested_tasks\<close>; \<open>curriculum.sample\<close>; \<open>task_queue.put\<close>, the read
  and the write of \<open>self.queued_tasks += 1\<close>, and \<open>self.added_tasks = []\<close>, with the
  tasks still to dispatch; \<open>time.sleep\<close>. A thread that has left the loop after
  \<open>stop\<close> is at \<open>Left\<close>; a thread that an exception has ended is at \<open>Died\<close>, with
  the point at which it was raised.
\<close>

datatype ('t, 'p) point =
    AtLoopTest
  | AtQueueTest nat
  | AtGet nat
  | AtSubtract nat "'p update list"
  | AtSubtractStore nat "'p update list" int
  | AtApply nat "'p update list"
  | AtSample nat
  | AtPut "'t list"
  | AtIncrement "'t list"
  | AtIncrementStore "'t list" int
  | AtClear "'t list"
  | AtSleep
  | Left
  | Died "('t, 'p) point"

text \<open>
  One statement of a consumer thread on the shared wrapper: the point after it and
  the wrapper after it. At \<open>AtGet\<close> the item is taken, normalised and counted (the
  count and \<open>requested_tasks\<close> are local to the thread), and \<open>get\<close> waits while the
  queue is empty. An augmented assignment reads the attribute and stores the result in
  two steps. The message of \<open>put\<close> refers to the list \<open>self.added_tasks\<close> itself and is
  pickled by \<open>put\<close>, so it carries the list as it is at that moment.
\<close>

fun consumer_step ::
  "('c, 't, 'p) curriculum_ops \<Rightarrow> ('t, 'p) point \<Rightarrow> ('c, 't, 'p) engine \<Rightarrow>
     ('t, 'p) point \<times> ('c, 't, 'p) engine" where
  "consumer_step ops AtLoopTest self =
     (if should_update self then AtQueueTest 0 else Left, self)"
| "consumer_step ops (AtQueueTest r) self =
     (case update_queue self of
        Some (item # rest) \<Rightarrow> (AtGet r, self)
      | _ \<Rightarrow> (if r > 0 then AtSample r else AtSleep, self))"
| "consumer_step ops (AtGet r) self =
     (case update_queue self of
        Some (item # rest) \<Rightarrow>
          (AtSubtract (r + requests_in (as_batch item)) (as_batch item),
           self\<lparr>update_queue := Some rest, consumed := consumed self @ as_batch item\<rparr>)
      | _ \<Rightarrow> (AtGet r, self))"
| "consumer_step ops (AtSubtract r batch) self =
     (AtSubtractStore r batch (queued_tasks self), self)"
| "consumer_step ops (AtSubtractStore r batch v) self =
     (AtApply r batch, self\<lparr>queued_tasks := v - int (requests_in batch)\<rparr>)"
| "consumer_step ops (AtApply r batch) self =
     (AtQueueTest r, self\<lparr>curriculum := batch_update_curriculum ops (curriculum self) batch\<rparr>)"
| "consumer_step ops (AtSample r) self =
     (let (new_tasks, cur) = sample ops (curriculum self) r
      in (AtPut new_tasks, self\<lparr>curriculum := cur\<rparr>))"
| "consumer_step ops (AtPut []) self = (AtSleep, self)"
| "consumer_step ops (AtPut (task # rest)) self =
     (AtIncrement rest,
      put \<lparr>next_task = task, added_tasks_key = Some (added_tasks self)\<rparr> self)"
| "consumer_step ops (AtIncrement rest) self =
     (AtIncrementStore rest (queued_tasks self), self)"
| "consumer_step ops (AtIncrementStore rest v) self =
     (AtClear rest, self\<lparr>queued_tasks := v + 1\<rparr>)"
| "consumer_step ops (AtClear rest) self = (AtPut rest, self\<lparr>added_tasks := []\<rparr>)"
| "consumer_step ops AtSleep self = (AtLoopTest, self)"
| "consumer_step ops Left self = (Left, self)"
| "consumer_step ops (Died p) self = (Died p, self)"

text \<open>
  The statement a thread is about to run raises instead. Nothing in
  \<open>_update_queues\<close> catches an exception, so the thread ends where it stands; a
  method of the curriculum that raises may have changed the curriculum before, to
  \<open>cur\<close>. The two tests and the sleep do not raise.
\<close>

fun raise_at ::
  "'c \<Rightarrow> ('t, 'p) point \<Rightarrow> ('c, 't, 'p) engine \<Rightarrow> ('t, 'p) point \<times> ('c, 't, 'p) engine" where
  "raise_at cur (AtApply r batch) self = (Died (AtApply r batch), self\<lparr>curriculum := cur\<rparr>)"
| "raise_at cur (AtSample r) self = (Died (AtSample r), self\<lparr>curriculum := cur\<rparr>)"
| "raise_at cur AtLoopTest self = (AtLoopTest, self)"
| "raise_at cur (AtQueueTest r) self = (AtQueueTest r, self)"
| "raise_at cur AtSleep self = (AtSleep, self)"
| "raise_at cur Left self = (Left, self)"
| "raise_at cur (Died p) self = (Died p, self)"
| "raise_at cur p self = (Died p, self)"

text \<open>
  The wrapper with its consumer threads. \<open>start\<close> has no guard: every call seeds the
  task queue and starts one more thread, and the threads of earlier calls run on. A
  call of \<open>start\<close> that returns is one event: its thread runs only after its last
  statement, and its seed messages enter neither of the two counts below.
\<close>

record ('c, 't, 'p) system =
  wrapper :: "('c, 't, 'p) engine"
  threads :: "('t, 'p) point list"

definition system_init ::
  "'c \<Rightarrow> nat \<Rightarrow> 't message list \<Rightarrow> 'p queued_update list option \<Rightarrow> ('c, 't, 'p) system" where
  "system_init cur n tq uq =
     \<lparr>wrapper = MultiProcessingCurriculumWrapper_init cur n tq uq, threads = []\<rparr>"

text \<open>
  What can happen: the owner calls \<open>start\<close>, \<open>stop\<close>, \<open>add_task\<close> or
  \<open>log_metrics\<close>; one of these calls raises inside the curriculum (\<open>start\<close> has then
  set \<open>should_update\<close>, put nothing and started no thread; \<open>add_task\<close> has appended
  nothing and \<open>log_metrics\<close> has written nothing); a consumer thread runs its next
  statement, or that statement raises; a worker puts an item on the update queue or
  takes a message from the task queue.
\<close>

datatype ('c, 't, 'p) event =
    Start
  | StartRaises 'c
  | Stop
  | AddTask 't
  | LogMetrics
  | FacadeRaises 'c
  | ThreadStep nat
  | ThreadRaises nat 'c
  | WorkerPut "'p queued_update"
  | WorkerGet

fun apply_event ::
  "('c, 't, 'p) curriculum_ops \<Rightarrow> ('c, 't, 'p) event \<Rightarrow> ('c, 't, 'p) system \<Rightarrow>
     ('c, 't, 'p) system" where
  "apply_event ops Start s =
     \<lparr>wrapper = start ops (wrapper s), threads = threads s @ [AtLoopTest]\<rparr>"
| "apply_event ops (StartRaises cur) s =
     s\<lparr>wrapper := (wrapper s)\<lparr>should_update := True, curriculum := cur\<rparr>\<rparr>"
| "apply_event ops Stop s = s\<lparr>wrapper := stop (wrapper s)\<rparr>"
| "apply_event ops (AddTask task) s = s\<lparr>wrapper := mp_add_task ops task (wrapper s)\<rparr>"
| "apply_event ops LogMetrics s = s\<lparr>wrapper := mp_log_metrics ops (wrapper s)\<rparr>"
| "apply_event ops (FacadeRaises cur) s = s\<lparr>wrapper := (wrapper s)\<lparr>curriculum := cur\<rparr>\<rparr>"
| "apply_event ops (ThreadStep i) s =
     (if i < length (threads s)
      then (let (p, w) = consumer_step ops (threads s ! i) (wrapper s)
            in \<lparr>wrapper = w, threads = (threads s)[i := p]\<rparr>)
      else s)"
| "apply_event ops (ThreadRaises i cur) s =
     (if i < length (threads s)
      then (let (p, w) = raise_at cur (threads s ! i) (wrapper s)
            in \<lparr>wrapper = w, threads = (threads s)[i := p]\<rparr>)
      else s)"
| "apply_event ops (WorkerPut item) s =
     (case update_queue (wrapper s) of
        None \<Rightarrow> s
      | Some q \<Rightarrow> s\<lparr>wrapper := (wrapper s)\<lparr>update_queue := Some (q @ [item])\<rparr>\<rparr>)"
| "apply_event ops WorkerGet s =
     (case task_queue (wrapper s) of
        [] \<Rightarrow> s
      | msg # rest \<Rightarrow> s\<lparr>wrapper := (wrapper s)\<lparr>task_queue := rest\<rparr>\<rparr>)"

definition run ::
  "('c, 't, 'p) curriculum_ops \<Rightarrow> ('c, 't, 'p) event list \<Rightarrow> ('c, 't, 'p) system \<Rightarrow>
     ('c, 't, 'p) system" where
  "run ops events s = fold (apply_event ops) events s"

text \<open>The two counts of the credit invariant, read from the records of the run.\<close>

definition dispatched :: "('c, 't, 'p) engine \<Rightarrow> nat" where
  "dispatched self = length (filter (\<lambda>msg. added_tasks_key msg \<noteq> None) (sent self))"

definition resamples_consumed :: "('c, 't, 'p) engine \<Rightarrow> nat" where
  "resamples_consumed self =
     length (filter (\<lambda>result. request_sample result = Some True) (consumed self))"


text \<open>
  What a thread at a point has consumed or dispatched without having brought it to
  the counter yet, and what the thread owes the counter: the requests it has
  subtracted and not yet answered with a dispatch.
\<close>

fun lag :: "('t, 'p) point \<Rightarrow> int" where
  "lag (AtSubtract r batch) = int (requests_in batch)"
| "lag (AtSubtractStore r batch v) = int (requests_in batch)"
| "lag (AtIncrement rest) = - 1"
| "lag (AtIncrementStore rest v) = - 1"
| "lag (Died p) = lag p"
| "lag p = 0"

fun credit_at :: "('t, 'p) point \<Rightarrow> int" where
  "credit_at (AtQueueTest r) = - int r"
| "credit_at (AtGet r) = - int r"
| "credit_at (AtSubtract r batch) = int (requests_in batch) - int r"
| "credit_at (AtSubtractStore r batch v) = int (requests_in batch) - int r"
| "credit_at (AtApply r batch) = - int r"
| "credit_at (AtSample r) = - int r"
| "credit_at (AtPut rest) = - int (length rest)"
| "credit_at (AtIncrement rest) = - int (length rest) - 1"
| "credit_at (AtIncrementStore rest v) = - int (length rest) - 1"
| "credit_at (AtClear rest) = - int (length rest)"
| "credit_at (Died p) = credit_at p"
| "credit_at p = 0"

text \<open>The value a thread has read for an augmented assignment is still the counter.\<close>

fun fresh :: "int \<Rightarrow> ('t, 'p) point \<Rightarrow> bool" where
  "fresh q (AtSubtractStore r batch v) = (v = q)"
| "fresh q (AtIncrementStore rest v) = (v = q)"
| "fresh q p = True"

text \<open>
  Three invariants of a run with one consumer thread. The first ties
  \<open>queued_tasks\<close> to the two counts, the second gives its value at each point of
  the thread, the third says that no read of the counter is out of date.
\<close>

definition credit_matches :: "('c, 't, 'p) system \<Rightarrow> bool" where
  "credit_matches s \<longleftrightarrow>
     queued_tasks (wrapper s) =
       int (dispatched (wrapper s)) - int (resamples_consumed (wrapper s)) +
       sum_list (map lag (threads s))"

definition credit_by_point :: "('c, 't, 'p) system \<Rightarrow> bool" where
  "credit_by_point s \<longleftrightarrow> queued_tasks (wrapper s) = sum_list (map credit_at (threads s))"

definition reads_fresh :: "('c, 't, 'p) system \<Rightarrow> bool" where
  "reads_fresh s \<longleftrightarrow> list_all (fresh (queued_tasks (wrapper s))) (threads s)"


section \<open>Concrete runs of the queue engine\<close>

text \<open>
  A curriculum without state whose \<open>sample(k)\<close> returns \<open>k\<close> times the task 0, and
  an engine for one worker over two empty queues.
\<close>

definition const_ops :: "(unit, nat, unit) curriculum_ops" where
  "const_ops =
     \<lparr>sample = (\<lambda>c k. (replicate k 0, c)),
      batch_update_curriculum = (\<lambda>c batch. c),
      curriculum_add_task = (\<lambda>c task. c),
      curriculum_log_metrics = (\<lambda>c. c)\<rparr>"

definition one_worker :: "(unit, nat, unit) engine" where
  "one_worker = MultiProcessingCurriculumWrapper_init () 1 [] (Some [])"

definition one_worker_system :: "(unit, nat, unit) system" where
  "one_worker_system = system_init () 1 [] (Some [])"

text \<open>
  Runs of that engine. A worker reports an episode and asks for a new task. In
  \<open>subtracted_events\<close> the thread takes the item and subtracts the request, and
  the owner logs the metrics; in \<open>put_events\<close> the thread goes on until it has put
  the new task and not yet counted it, and the owner logs again; in
  \<open>served_events\<close> the thread finishes the iteration.
\<close>

definition a_request :: "unit queued_update" where
  "a_request = Single \<lparr>request_sample = Some True, outcome = ()\<rparr>"




text \<open>
  A run with two calls of \<open>start\<close> and two requests. The first thread reads the
  counter for its subtraction, the second thread takes the other request and
  subtracts it, and then the first thread stores its own result over that; both
  threads finish their iterations.
\<close>

definition lost_update_events :: "(unit, nat, unit) event list" where
  "lost_update_events =
     [Start, Start, WorkerPut a_request, WorkerPut a_request,
      ThreadStep 0, ThreadStep 0, ThreadStep 0, ThreadStep 0,
      ThreadStep 1, ThreadStep 1, ThreadStep 1, ThreadStep 1, ThreadStep 1,
      ThreadStep 0,
      ThreadStep 0, ThreadStep 0, ThreadStep 0, ThreadStep 0,
      ThreadStep 0, ThreadStep 0, ThreadStep 0, ThreadStep 0,
      ThreadStep 1, ThreadStep 1, ThreadStep 1, ThreadStep 1,
      ThreadStep 1, ThreadStep 1, ThreadStep 1, ThreadStep 1]"

text \<open>
  A curriculum that keeps the list of the batches it was updated with, and an engine
  whose thread is about to drain two items: a bare update without the key
  \<open>request_sample\<close>, and a batch of one update that asks for a task and one that
  does not.
\<close>

definition logging_ops :: "(unit update list list, nat, unit) curriculum_ops" where
  "logging_ops =
     \<lparr>sample = (\<lambda>c k. (replicate k 0, c)),
      batch_update_curriculum = (\<lambda>c batch. c @ [batch]),
      curriculum_add_task = (\<lambda>c task. c),
      curriculum_log_metrics = (\<lambda>c. c)\<rparr>"

definition two_items :: "unit queued_update list" where
  "two_items =
     [Single \<lparr>request_sample = None, outcome = ()\<rparr>,
      Batch [\<lparr>request_sample = Some True, outcome = ()\<rparr>,
             \<lparr>request_sample = Some False, outcome = ()\<rparr>]]"

definition draining :: "(unit update list list, nat, unit) engine" where
  "draining =
     (MultiProcessingCurriculumWrapper_init [] 1 [] (Some two_items))
       \<lparr>update_thread := Draining 0, should_update := True\<rparr>"

section \<open>The actor synchronization engine (syllabus/core/curriculum\_sync\_wrapper.py)\<close>

text \<open>
  The function objects of the two classes: the function that a \<open>def\<close> in the body
  of the named class creates, and the closure \<open>wrapper\<close> that \<open>remote_call(func)\<close>
  returns. \<open>functools.wraps\<close> gives the closure the name of \<open>func\<close>.
\<close>

datatype func = Def string string | Wrapper func

fun func_name :: "func \<Rightarrow> string" where
  "func_name (Def cls name) = name"
| "func_name (Wrapper f) = func_name f"

text \<open>
  What \<open>getattr\<close> returns for the name of a method: on the class the function
  itself, on an instance a method object that binds the function to the instance. In
  Python a method object never compares equal to a function.
\<close>

datatype attribute = Function func | Method func

text \<open>
  The operations that \<open>CurriculumWrapper\<close> defines (\<open>num_tasks\<close> and \<open>tasks\<close> are
  properties, not functions), and the ones whose \<open>def\<close> the body of
  \<open>RayCurriculumWrapper\<close> repeats.
\<close>

definition facade_methods :: "string list" where
  "facade_methods =
     [''sample'', ''complete_task'', ''count_tasks'', ''get_tasks'', ''_on_step'',
      ''log_metrics'', ''_on_step_batch'', ''update_curriculum'',
      ''batch_update_curriculum'', ''add_task'']"

definition overrides :: "string list" where
  "overrides = [''sample'', ''_on_step_batch'', ''add_task'']"

definition getattr_CurriculumWrapper :: "string \<Rightarrow> func option" where
  "getattr_CurriculumWrapper name =
     (if name \<in> set facade_methods then Some (Def ''CurriculumWrapper'' name) else None)"

text \<open>
  The class \<open>RayCurriculumWrapper\<close> after \<open>@decorate_all_functions(remote_call)\<close>.
  \<open>decorate_all_functions\<close> is not part of these sources: \<open>decorated\<close> is the set of
  names whose function it has replaced by \<open>remote_call\<close> of that function.
\<close>

definition getattr_RayCurriculumWrapper :: "string set \<Rightarrow> string \<Rightarrow> func option" where
  "getattr_RayCurriculumWrapper decorated name =
     (case (if name \<in> set overrides then Some (Def ''RayCurriculumWrapper'' name)
            else getattr_CurriculumWrapper name) of
        None \<Rightarrow> None
      | Some f \<Rightarrow> Some (if name \<in> decorated then Wrapper f else f))"

text \<open>
  The wrapper object together with the actor behind it. \<open>actor\<close> is the curriculum
  inside the actor whose handle \<open>self.curriculum\<close> holds, and \<open>None\<close> while
  \<open>__init__\<close> has not run (no actor, no attribute); \<open>served\<close> lists the calls the actor
  has executed.
\<close>

record ('c, 'a) ray_wrapper =
  actor :: "'c option"
  served :: "(string \<times> 'a) list"
  ray_added_tasks :: "'a list"

text \<open>
  The methods of the curriculum inside the actor and of the local task space are
  parameters.
\<close>

record ('c, 'a, 'r) ray_env =
  remote_method :: "string \<Rightarrow> 'a \<Rightarrow> 'c \<Rightarrow> 'r option \<times> 'c"
  task_space_method :: "string \<Rightarrow> 'a \<Rightarrow> 'r option"

text \<open>
  \<open>ray.get(self.curriculum.name.remote(args))\<close>: the actor runs the method and the
  caller waits for its result.
\<close>

definition ray_get_remote ::
  "('c, 'a, 'r) ray_env \<Rightarrow> string \<Rightarrow> 'a \<Rightarrow> ('c, 'a) ray_wrapper \<Rightarrow>
     (py_exc + 'r option) \<times> ('c, 'a) ray_wrapper" where
  "ray_get_remote env name args self =
     (case actor self of
        None \<Rightarrow> (Inl AttributeError, self)
      | Some c \<Rightarrow>
          (let (r, c') = remote_method env name args c
           in (Inr r, self\<lparr>actor := Some c', served := served self @ [(name, args)]\<rparr>)))"

text \<open>
  \<open>self.curriculum.name(args)\<close>, as the bodies of \<open>CurriculumWrapper\<close> write it: ray
  refuses the direct call of an actor method with a TypeError.
\<close>

definition direct_call ::
  "string \<Rightarrow> 'a \<Rightarrow> ('c, 'a) ray_wrapper \<Rightarrow> (py_exc + 'r option) \<times> ('c, 'a) ray_wrapper" where
  "direct_call name args self =
     (case actor self of
        None \<Rightarrow> (Inl AttributeError, self)
      | Some c \<Rightarrow> (Inl TypeError, self))"

text \<open>
  The closure that \<open>remote_call(func)\<close> returns, called on the instance. It never
  calls \<open>func\<close>: it forwards when the two attributes are equal, and otherwise falls off
  its end.
\<close>

definition remote_call ::
  "('c, 'a, 'r) ray_env \<Rightarrow> string set \<Rightarrow> func \<Rightarrow> 'a \<Rightarrow> ('c, 'a) ray_wrapper \<Rightarrow>
     (py_exc + 'r option) \<times> ('c, 'a) ray_wrapper" where
  "remote_call env decorated func args self =
     (let f_name = func_name func in
      case getattr_CurriculumWrapper f_name of
        None \<Rightarrow> (Inl AttributeError, self)
      | Some parent \<Rightarrow>
          (case getattr_RayCurriculumWrapper decorated f_name of
             None \<Rightarrow> (Inl AttributeError, self)
           | Some child \<Rightarrow>
               (let parent_func = Function parent; child_func = Method child
                in if child_func = parent_func
                   then ray_get_remote env f_name args self
                   else (Inr None, self))))"

text \<open>The bodies of the functions the two classes define.\<close>

definition call_def ::
  "('c, 'a, 'r) ray_env \<Rightarrow> string \<Rightarrow> string \<Rightarrow> 'a \<Rightarrow> ('c, 'a) ray_wrapper \<Rightarrow>
     (py_exc + 'r option) \<times> ('c, 'a) ray_wrapper" where
  "call_def env cls name args self =
     (if cls = ''RayCurriculumWrapper'' \<and> name \<in> {''sample'', ''_on_step_batch''}
      then ray_get_remote env name args self
      else if cls = ''RayCurriculumWrapper'' \<and> name = ''add_task''
      then (case (direct_call ''add_task'' args self ::
                (py_exc + 'r option) \<times> ('c, 'a) ray_wrapper) of
              (Inl e, s) \<Rightarrow> (Inl e, s)
            | (Inr r, s) \<Rightarrow> (Inr None, s\<lparr>ray_added_tasks := ray_added_tasks s @ [args]\<rparr>))
      else if name \<in> {''count_tasks'', ''get_tasks''}
      then (case actor self of
              None \<Rightarrow> (Inl AttributeError, self)
            | Some c \<Rightarrow> (Inr (task_space_method env name args), self))
      else direct_call name args self)"

fun call_func ::
  "('c, 'a, 'r) ray_env \<Rightarrow> string set \<Rightarrow> func \<Rightarrow> 'a \<Rightarrow> ('c, 'a) ray_wrapper \<Rightarrow>
     (py_exc + 'r option) \<times> ('c, 'a) ray_wrapper" where
  "call_func env decorated (Wrapper func) args self = remote_call env decorated func args self"
| "call_func env decorated (Def cls name) args self = call_def env cls name args self"

text \<open>\<open>self.name(args)\<close> on an instance of \<open>RayCurriculumWrapper\<close>.\<close>

definition call_method ::
  "('c, 'a, 'r) ray_env \<Rightarrow> string set \<Rightarrow> string \<Rightarrow> 'a \<Rightarrow> ('c, 'a) ray_wrapper \<Rightarrow>
     (py_exc + 'r option) \<times> ('c, 'a) ray_wrapper" where
  "call_method env decorated name args self =
     (case getattr_RayCurriculumWrapper decorated name of
        None \<Rightarrow> (Inl AttributeError, self)
      | Some f \<Rightarrow> call_func env decorated f args self)"

text \<open>
  \<open>make_ray_curriculum(curriculum)\<close>. When \<open>__init__\<close> is among the decorated
  functions, the closure runs in its place and, the comparison failing, does nothing.
\<close>

definition make_ray_curriculum :: "string set \<Rightarrow> 'c \<Rightarrow> ('c, 'a) ray_wrapper" where
  "make_ray_curriculum decorated cur =
     (if ''__init__'' \<in> decorated
      then \<lparr>actor = None, served = [], ray_added_tasks = []\<rparr>
      else \<lparr>actor = Some cur, served = [], ray_added_tasks = []\<rparr>)"

section \<open>Properties of the task space\<close>

lemma dict_of_fold:
  "fold (\<lambda>(k, v) m. m(k \<mapsto> v)) kvs m = m ++ map_of (rev kvs)"
  by (induction kvs arbitrary: m) (auto simp: map_add_def fun_eq_iff split: option.splits)

lemma dict_of_rev: "dict_of kvs = map_of (rev kvs)"
  by (simp add: dict_of_def dict_of_fold)

lemma dict_of_distinct: "distinct (map fst kvs) \<Longrightarrow> dict_of kvs = map_of kvs"
  unfolding dict_of_rev
  by (rule ext) (metis distinct_rev map_of_eq_Some_iff map_of_eq_None_iff not_Some_eq rev_map set_rev)

lemma enum_pairs_decode:
  "map (\<lambda>(i, task). (int i, task)) (enumerate 0 ts) = zip (map int [0..<length ts]) ts"
  by (simp add: enumerate_eq_zip zip_map1 case_prod_unfold)

lemma enum_pairs_encode:
  "map (\<lambda>(i, task). (task, int i)) (enumerate 0 ts) = zip ts (map int [0..<length ts])"
  by (induction ts rule: rev_induct) (simp_all add: enumerate_append_eq)

lemma decode_map_lookup:
  "dict_of (map (\<lambda>(i, task). (int i, task)) (enumerate 0 ts)) i =
     (if 0 \<le> i \<and> i < int (length ts) then Some (ts ! nat i) else None)"
proof -
  let ?ks = "map int [0..<length ts]"
  have d: "distinct ?ks"
    by (simp add: distinct_map inj_on_def)
  have eq: "dict_of (map (\<lambda>(i, task). (int i, task)) (enumerate 0 ts)) = map_of (zip ?ks ts)"
    using d by (simp add: enum_pairs_decode dict_of_distinct)
  show ?thesis
  proof (cases "0 \<le> i \<and> i < int (length ts)")
    case True
    then have k: "nat i < length ts" and ki: "?ks ! nat i = i"
      by auto
    have "map_of (zip ?ks ts) (?ks ! nat i) = Some (ts ! nat i)"
      using d k by (intro map_of_zip_nth) auto
    with True ki eq show ?thesis by simp
  next
    case False
    then have "i \<notin> set ?ks" by auto
    then have "map_of (zip ?ks ts) i = None"
      by simp
    then have "dict_of (map (\<lambda>(i, task). (int i, task)) (enumerate 0 ts)) i = None"
      by (simp only: eq)
    with False show ?thesis by (simp only: if_False)
  qed
qed

lemma encode_map_sound:
  assumes "dict_of (map (\<lambda>(i, task). (task, int i)) (enumerate 0 ts)) t = Some i"
  shows "0 \<le> i \<and> i < int (length ts) \<and> ts ! nat i = t"
proof -
  from assms have "(t, i) \<in> set (zip ts (map int [0..<length ts]))"
    by (auto simp: dict_of_rev enum_pairs_encode dest: map_of_SomeD)
  then obtain k where "k < length ts" "ts ! k = t" "i = int k"
    by (auto simp: set_zip)
  then show ?thesis by simp
qed

lemma encode_map_total:
  assumes "t \<in> set ts"
  shows "\<exists>i. dict_of (map (\<lambda>(i, task). (task, int i)) (enumerate 0 ts)) t = Some i"
proof -
  have "t \<in> fst ` set (rev (zip ts (map int [0..<length ts])))"
    using assms by (simp add: image_iff) (metis in_set_impl_in_set_zip1 fst_conv length_map length_upt minus_nat.diff_0)
  then have "map_of (rev (zip ts (map int [0..<length ts]))) t \<noteq> None"
    by (simp only: map_of_eq_None_iff not_not)
  then show ?thesis
    by (auto simp: dict_of_rev enum_pairs_encode)
qed

lemma encode_map_distinct:
  assumes "distinct ts" "k < length ts"
  shows "dict_of (map (\<lambda>(i, task). (task, int i)) (enumerate 0 ts)) (ts ! k) = Some (int k)"
proof -
  have "map_of (zip ts (map int [0..<length ts])) (ts ! k) = Some (map int [0..<length ts] ! k)"
    using assms by (intro map_of_zip_nth) auto
  then show ?thesis
    using assms by (simp add: enum_pairs_encode dict_of_distinct)
qed

lemma init_Discrete:
  assumes "TaskSpace_init (Some (Discrete n)) ts = Inr self"
  shows "n = int (length ts)" and "gym_space self = Some (Discrete n)" and "coder self = ViaMaps"
    and "encode_map self = dict_of (map (\<lambda>(i, task). (task, int i)) (enumerate 0 ts))"
    and "decode_map self = dict_of (map (\<lambda>(i, task). (int i, task)) (enumerate 0 ts))"
    and "tasks self = set ts"
  using assms
  by (auto simp: TaskSpace_init_def make_task_encoder_def split: if_splits)

lemma decode_in_range:
  assumes "gym_space self = Some (Discrete n)" and "coder self = ViaMaps"
    and "0 \<le> i" and "i < n" and "n \<le> 2 ^ 63" and "decode_map self i = Some t"
  shows "decode self (PInt i) = Inr (Some t)"
  using assms by (simp add: decode_def decoder_def)

lemma encode_known:
  assumes "coder self = ViaMaps" and "encode_map self t = Some i"
  shows "encode self t = Inr (Some (PInt i))"
  using assms by (simp add: encode_def encoder_def)

text \<open>
  C1 (amended). A task space built over \<open>Discrete(n)\<close> from a list of \<open>n\<close> pairwise
  distinct tasks (a Python list, so shorter than \<open>2^63\<close>) round-trips: every registered
  task encodes to an index that decodes to it, and every index in \<open>[0, n)\<close> decodes to a
  task that encodes to it.
\<close>

theorem round_trip_distinct:
  assumes init: "TaskSpace_init (Some (Discrete n)) ts = Inr self"
    and dist: "distinct ts"
    and len: "length ts < 2 ^ 63"
  shows "(\<forall>t \<in> tasks self. \<exists>i. encode self t = Inr (Some (PInt i)) \<and>
             decode self (PInt i) = Inr (Some t)) \<and>
         (\<forall>i. 0 \<le> i \<and> i < n \<longrightarrow>
            (\<exists>t. decode self (PInt i) = Inr (Some t) \<and> encode self t = Inr (Some (PInt i))))"
proof (intro conjI ballI allI impI)
  note facts = init_Discrete [OF init]
  have n63: "n \<le> 2 ^ 63"
    using len facts(1) by simp
  {
    fix t
    assume "t \<in> tasks self"
    then have "t \<in> set ts" by (simp add: facts(6))
    then obtain i where enc: "encode_map self t = Some i"
      using encode_map_total [of t ts] by (auto simp: facts(4))
    then have rng: "0 \<le> i \<and> i < int (length ts) \<and> ts ! nat i = t"
      using encode_map_sound [of ts t i] by (simp add: facts(4))
    then have "decode_map self i = Some t"
      by (simp add: facts(5) decode_map_lookup)
    then have "decode self (PInt i) = Inr (Some t)"
      using rng n63 facts(1) by (intro decode_in_range [OF facts(2) facts(3)]) auto
    with enc show "\<exists>i. encode self t = Inr (Some (PInt i)) \<and> decode self (PInt i) = Inr (Some t)"
      using encode_known [OF facts(3)] by blast
  }
  {
    fix i
    assume i: "0 \<le> i \<and> i < n"
    then have k: "nat i < length ts"
      using facts(1) by (simp add: nat_less_iff)
    have dm: "decode_map self i = Some (ts ! nat i)"
      using i facts(1) by (simp add: facts(5) decode_map_lookup)
    have "decode self (PInt i) = Inr (Some (ts ! nat i))"
      using i n63 dm by (intro decode_in_range [OF facts(2) facts(3)]) auto
    moreover have "encode_map self (ts ! nat i) = Some i"
      using encode_map_distinct [OF dist k] i by (simp add: facts(4))
    ultimately show "\<exists>t. decode self (PInt i) = Inr (Some t) \<and> encode self t = Inr (Some (PInt i))"
      using encode_known [OF facts(3)] by blast
  }
qed

lemma ab_space_init:
  "TaskSpace_init (Some (Discrete 2)) [PObj ''a'', PObj ''b''] = Inr ab_space"
proof -
  have e: "dict_of [(PObj ''a'', 0::int), (PObj ''b'', 1)] = [PObj ''a'' \<mapsto> 0, PObj ''b'' \<mapsto> 1]"
    by (simp add: dict_of_def)
  have d: "dict_of [(0::int, PObj ''a''), (1, PObj ''b'')] = [0 \<mapsto> PObj ''a'', 1 \<mapsto> PObj ''b'']"
    by (simp add: dict_of_def)
  show ?thesis
    using e d by (simp add: TaskSpace_init_def make_task_encoder_def ab_space_def enumerate_simps)
qed

theorem round_trip_distinct_witness:
  "TaskSpace_init (Some (Discrete 2)) [PObj ''a'', PObj ''b''] = Inr ab_space \<and>
   distinct [PObj ''a'', PObj ''b''] \<and>
   length [PObj ''a'', PObj ''b''] < 2 ^ 63 \<and>
   (\<exists>i. encode ab_space (PObj ''b'') = Inr (Some (PInt i)) \<and>
        decode ab_space (PInt i) = Inr (Some (PObj ''b''))) \<and>
   (\<exists>t. decode ab_space (PInt 1) = Inr (Some t) \<and> encode ab_space t = Inr (Some (PInt 1)))"
proof -
  note init = ab_space_init
  have dist: "distinct [PObj ''a'', PObj ''b'']"
    by simp
  have len: "length [PObj ''a'', PObj ''b''] < 2 ^ 63"
    by simp
  note rt = round_trip_distinct [OF init dist len]
  have b: "PObj ''b'' \<in> tasks ab_space"
    by (simp add: ab_space_def)
  from rt b have "\<exists>i. encode ab_space (PObj ''b'') = Inr (Some (PInt i)) \<and>
        decode ab_space (PInt i) = Inr (Some (PObj ''b''))"
    by blast
  moreover from rt have "\<exists>t. decode ab_space (PInt 1) = Inr (Some t) \<and>
        encode ab_space t = Inr (Some (PInt 1))"
    by simp
  ultimately show ?thesis
    using init dist len by blast
qed

text \<open>
  C1 as stated fails when the task list repeats a task: with \<open>["a", "a"]\<close> index 0
  decodes to \<open>"a"\<close>, which encodes to 1.
\<close>

theorem round_trip_duplicates_counterexample:
  "TaskSpace_init (Some (Discrete 2)) [PObj ''a'', PObj ''a''] = Inr dup_space \<and>
   decode dup_space (PInt 0) = Inr (Some (PObj ''a'')) \<and>
   encode dup_space (PObj ''a'') = Inr (Some (PInt 1)) \<and>
   encode dup_space (PObj ''a'') \<noteq> Inr (Some (PInt 0))"
proof -
  have "dict_of [(PObj ''a'', 0::int), (PObj ''a'', 1)] = [PObj ''a'' \<mapsto> 1]"
    by (simp add: dict_of_def)
  moreover have "dict_of [(0::int, PObj ''a''), (1, PObj ''a'')] = [0 \<mapsto> PObj ''a'', 1 \<mapsto> PObj ''a'']"
    by (simp add: dict_of_def)
  ultimately have "TaskSpace_init (Some (Discrete 2)) [PObj ''a'', PObj ''a''] = Inr dup_space"
    by (simp add: TaskSpace_init_def make_task_encoder_def dup_space_def enumerate_simps)
  moreover have "decode dup_space (PInt 0) = Inr (Some (PObj ''a''))"
    by (simp add: decode_def decoder_def dup_space_def)
  moreover have "encode dup_space (PObj ''a'') = Inr (Some (PInt 1))"
    by (simp add: encode_def encoder_def dup_space_def)
  ultimately show ?thesis by simp
qed

subsection \<open>Adding a task\<close>

lemma asc3: "ascending {PInt 2, PInt 1, PInt 0 :: unit pyval} = [PInt 0, PInt 1, PInt 2]"
  by (simp add: ascending_def)

lemma ints_10_init: "TaskSpace_init (Some (Discrete 2)) [PInt 1, PInt 0] = Inr ints_10"
proof -
  have "dict_of [(PInt 1 :: unit pyval, 0::int), (PInt 0, 1)] = [PInt 1 \<mapsto> 0, PInt 0 \<mapsto> 1]"
    by (simp add: dict_of_def)
  moreover have "dict_of [(0::int, PInt 1 :: unit pyval), (1, PInt 0)] = [0 \<mapsto> PInt 1, 1 \<mapsto> PInt 0]"
    by (simp add: dict_of_def)
  ultimately show ?thesis
  by (simp add: TaskSpace_init_def make_task_encoder_def ints_10_def enumerate_simps)
qed

lemma add2: "add_task ascending ints_10 (PInt 2) = (None, ints_10\<lparr>gym_space := Some (Discrete 3),
   encode_map := dict_of [(PInt 0, 0), (PInt 1, 1), (PInt 2, 2)],
   decode_map := dict_of [(0, PInt 0), (1, PInt 1), (2, PInt 2)],
   tasks := {PInt 2, PInt 1, PInt 0}\<rparr>)"
  by (simp add: add_task_def ints_10_def increase_space_def make_task_encoder_def asc3 enumerate_simps)

text \<open>
  C2 fails on the code. \<open>add_task\<close> rebuilds both maps by enumerating the set
  \<open>self._tasks\<close>, not the list the constructor enumerated. For
  \<open>TaskSpace(Discrete(2), [1, 0])\<close> index 0 decodes to task 1; after \<open>add_task(2)\<close>,
  which raises nothing, index 0 decodes to task 0.
\<close>

theorem add_task_renumbers:
  "TaskSpace_init (Some (Discrete 2)) [PInt 1, PInt 0] = Inr ints_10 \<and>
   PInt 2 \<notin> tasks ints_10 \<and>
   decode ints_10 (PInt 0) = Inr (Some (PInt 1)) \<and>
   fst (add_task ascending ints_10 (PInt 2)) = None \<and>
   decode (snd (add_task ascending ints_10 (PInt 2))) (PInt 0) = Inr (Some (PInt 0))"
proof -
  have "decode ints_10 (PInt 0) = Inr (Some (PInt 1))"
    by (simp add: decode_def decoder_def ints_10_def)
  moreover have "decode (snd (add_task ascending ints_10 (PInt 2))) (PInt 0) = Inr (Some (PInt 0))"
    unfolding add2 snd_conv by (simp add: decode_def decoder_def dict_of_def ints_10_def)
  moreover have "PInt 2 \<notin> tasks ints_10" by (simp add: ints_10_def)
  ultimately show ?thesis
    by (simp add: ints_10_init add2)
qed

text \<open>
  The first half of C2 holds whatever the order of the set: adding a new task to a
  Discrete-backed task space raises the count by one.
\<close>

lemma add_task_num_tasks:
  assumes "gym_space self = Some (Discrete n)" and "0 \<le> n" and "task \<notin> tasks self"
  shows "num_tasks (snd (add_task order self task)) = Inr (Some (n + 1))"
  using assms
  by (auto simp: add_task_def increase_space_def make_task_encoder_def num_tasks_def
      count_tasks_def Let_def split: sum.splits if_splits)

text \<open>
  C10. \<open>add_task\<close> with a task that is already in the known-task set raises nothing
  and leaves the object as it was: the domain, the encoder and decoder, both maps and
  the known-task set.
\<close>

theorem add_task_known_unchanged:
  assumes "task \<in> tasks self"
  shows "add_task order self task = (None, self)"
  using assms by (simp add: add_task_def)

theorem add_task_known_unchanged_witness:
  "PObj ''a'' \<in> tasks ab_space \<and> add_task (\<lambda>S. []) ab_space (PObj ''a'') = (None, ab_space)"
proof -
  have m: "PObj ''a'' \<in> tasks ab_space"
    by (simp add: ab_space_def)
  from add_task_known_unchanged [OF m] m show ?thesis
    by simp
qed


subsection \<open>Growing the domain\<close>

text \<open>
  C5 fails on the code. On a task space over a Box, \<open>increase_space()\<close> raises
  nothing and returns \<open>None\<close>.
\<close>

theorem increase_space_box_returns_none:
  "TaskSpace_init (Some (Box f)) [] = Inr (box_space f) \<and>
   increase_space (box_space f) (IntAmount 1) = Inr None"
  by (simp add: TaskSpace_init_def make_task_encoder_def box_space_def increase_space_def)

text \<open>
  The same holds for every domain that is not Discrete; a float amount on a Discrete
  domain does fail the assertion.
\<close>

lemma increase_space_not_Discrete:
  assumes "\<forall>n. gym_space self \<noteq> Some (Discrete n)"
  shows "increase_space self amt = Inr None"
  using assms by (auto simp: increase_space_def split: option.splits space.splits)

lemma increase_space_float:
  assumes "gym_space self = Some (Discrete n)"
  shows "increase_space self (FloatAmount m e) = Inl AssertionError"
  using assms by (simp add: increase_space_def)

subsection \<open>Failures of encode and decode\<close>

text \<open>
  C4 fails on the code. \<open>decode\<close> converts the raw index to \<open>np.int64\<close> before it
  tests the domain, outside any \<open>try\<close>: for the index \<open>2^63\<close>, which lies outside
  \<open>Discrete(2)\<close>, the conversion raises OverflowError.
\<close>

theorem decode_huge_index_raises:
  "TaskSpace_init (Some (Discrete 2)) [PObj ''a'', PObj ''b''] = Inr ab_space \<and>
   decode ab_space (PInt (2 ^ 63)) = Inl OverflowError"
proof -
  have "decode ab_space (PInt (2 ^ 63)) = Inl OverflowError"
    by (simp add: decode_def ab_space_def)
  with ab_space_init show ?thesis by simp
qed

text \<open>
  The rest of C4 holds: \<open>encode\<close> never raises and gives \<open>None\<close> for a task
  without an index, and \<open>decode\<close> gives \<open>None\<close> for an index outside the domain that
  fits 64 bits.
\<close>

lemma encode_never_raises: "\<exists>r. encode self task = Inr r"
  by (simp add: encode_def split: sum.splits)

lemma encode_unknown_task:
  assumes "coder self = ViaMaps" and "encode_map self task = None"
  shows "encode self task = Inr None"
  using assms by (simp add: encode_def encoder_def)

lemma decode_outside_domain:
  assumes "gym_space self = Some (Discrete n)"
    and "- (2 ^ 63) \<le> i" and "i < 2 ^ 63" and "i < 0 \<or> n \<le> i"
  shows "decode self (PInt i) = Inr None"
  using assms by (auto simp: decode_def)

subsection \<open>Counting tasks\<close>

text \<open>
  C3 fails on the code. The Tuple and Dict branches call
  \<open>self.count_tasks(task_space=s)\<close>, but the parameter is named \<open>gym_space\<close>: the
  count of \<open>Tuple((Discrete(2), Discrete(3)))\<close> is a TypeError, not 5.
\<close>

theorem count_tasks_tuple_raises:
  "count_tasks ab_space (Some (Tuple [Discrete 2, Discrete 3])) = Inl TypeError"
  by (simp add: count_tasks_def bind_count_tasks_def)

text \<open>
  A Dict with a subspace fails the same way, and a MultiBinary space has no
  \<open>nvec\<close>. The Discrete count is the declared size, and a MultiDiscrete space with
  axis sizes \<open>[a, b]\<close> counts \<open>a * b\<close> as long as the product fits 64 bits.
\<close>

lemma count_tasks_dict_raises:
  "count_tasks self (Some (Dict ((k, s) # rest))) = Inl TypeError"
  by (simp add: count_tasks_def bind_count_tasks_def)

lemma count_tasks_multibinary_raises:
  "count_tasks self (Some (MultiBinary n)) = Inl AttributeError"
  by (simp add: count_tasks_def)

lemma count_tasks_Discrete:
  "count_tasks self (Some (Discrete n)) = Inr (Some n)"
  by (simp add: count_tasks_def)

lemma count_tasks_MultiDiscrete:
  assumes "0 \<le> a * b" and "a * b < 2 ^ 63"
  shows "count_tasks self (Some (MultiDiscrete [Size a, Size b])) = Inr (Some (a * b))"
proof -
  have "(word_of_int a * word_of_int b :: 64 word) = word_of_int (a * b)"
    by simp
  then have "sint (word_of_int a * word_of_int b :: 64 word) =
      signed_take_bit (LENGTH(64) - 1) (a * b)"
    by (simp only: sint_sbintrunc')
  also have "\<dots> = a * b"
    by (rule signed_take_bit_int_eq_self) (use assms in simp_all)
  finally show ?thesis
    by (simp add: count_tasks_def np_prod_def)
qed

section \<open>Properties of the queue engine\<close>

lemma requests_in_count:
  "requests_in batch = length (filter (\<lambda>result. request_sample result = Some True) batch)"
  by (induction batch) (auto split: option.splits)

lemma fold_put_seeds:
  "fold (\<lambda>task. put \<lparr>next_task = task, added_tasks_key = None\<rparr>) ts self =
     self\<lparr>task_queue := task_queue self @ map (\<lambda>task. \<lparr>next_task = task, added_tasks_key = None\<rparr>) ts,
          sent := sent self @ map (\<lambda>task. \<lparr>next_task = task, added_tasks_key = None\<rparr>) ts\<rparr>"
  by (induction ts arbitrary: self) (simp_all add: put_def)

lemma start_fields:
  "start ops self =
     self\<lparr>should_update := True,
          curriculum := snd (sample ops (curriculum self) (num_envs self)),
          task_queue := task_queue self @
            map (\<lambda>task. \<lparr>next_task = task, added_tasks_key = None\<rparr>)
              (fst (sample ops (curriculum self) (num_envs self))),
          sent := sent self @
            map (\<lambda>task. \<lparr>next_task = task, added_tasks_key = None\<rparr>)
              (fst (sample ops (curriculum self) (num_envs self))),
          update_thread := LoopHead\<rparr>"
  by (simp add: start_def fold_put_seeds split: prod.splits)


text \<open>
  The statements of one pass through the body of the inner loop, run one after the
  other with nothing in between, do to the wrapper what \<open>thread_step\<close> does; so do
  the statements of one pass through the body of the \<open>for\<close> loop.
\<close>

lemma drain_pass:
  assumes "update_queue self = Some (item # rest)"
  shows "((\<lambda>(p, w). consumer_step ops p w) ^^ 5) (AtQueueTest r, self) =
     (AtQueueTest (r + requests_in (as_batch item)),
      (thread_step ops (self\<lparr>update_thread := Draining r\<rparr>))
        \<lparr>update_thread := update_thread self\<rparr>)"
  using assms by (simp add: eval_nat_numeral thread_step_def Let_def)

lemma dispatch_pass:
  "((\<lambda>(p, w). consumer_step ops p w) ^^ 4) (AtPut (task # rest), self) =
     (AtPut rest,
      (thread_step ops (self\<lparr>update_thread := Dispatching (task # rest)\<rparr>))
        \<lparr>update_thread := update_thread self\<rparr>)"
  by (simp add: eval_nat_numeral thread_step_def put_def)






text \<open>A statement that raises keeps them as well, and so does every event.\<close>

lemma raise_at_invariants:
  assumes "threads s = [p]" and "credit_matches s" and "reads_fresh s" and "credit_by_point s"
    and "raise_at cur p (wrapper s) = (p', w')"
  shows "credit_matches \<lparr>wrapper = w', threads = [p']\<rparr> \<and>
         reads_fresh \<lparr>wrapper = w', threads = [p']\<rparr> \<and>
         credit_by_point \<lparr>wrapper = w', threads = [p']\<rparr>"
  using assms
  by (cases p)
    (auto simp: credit_matches_def reads_fresh_def credit_by_point_def dispatched_def
      resamples_consumed_def)










text \<open>
  Why one consumer thread: after a second call of \<open>start\<close> two threads update the
  counter, and a value one of them has read can be out of date when it stores its
  result. In this run both threads end between two iterations, two messages have
  been dispatched and two requests consumed, and the counter is 1.
\<close>

lemma lost_update_run:
  "threads (run const_ops lost_update_events one_worker_system) =
     [AtSleep, AtSleep] \<and>
   dispatched (wrapper (run const_ops lost_update_events one_worker_system)) =
     2 \<and>
   resamples_consumed
     (wrapper (run const_ops lost_update_events one_worker_system)) = 2 \<and>
   queued_tasks (wrapper (run const_ops lost_update_events one_worker_system)) =
     1"
  by (simp add: run_def lost_update_events_def a_request_def one_worker_system_def system_init_def const_ops_def
      start_def put_def MultiProcessingCurriculumWrapper_init_def dispatched_def
      resamples_consumed_def)

text \<open>
  C7. \<open>start\<close> calls \<open>sample\<close> once, for \<open>num_envs\<close> tasks, and appends one seed
  message per sampled task to the task queue, in order: when the curriculum returns
  \<open>num_envs\<close> tasks, exactly \<open>num_envs\<close> messages are added. The credit counter is
  left as it was, and the thread is started last.
\<close>

theorem start_seeds_each_worker:
  assumes "length (fst (sample ops (curriculum self) (num_envs self))) = num_envs self"
  shows "task_queue (start ops self) =
           task_queue self @
           map (\<lambda>task. \<lparr>next_task = task, added_tasks_key = None\<rparr>)
             (fst (sample ops (curriculum self) (num_envs self))) \<and>
         length (task_queue (start ops self)) = length (task_queue self) + num_envs self \<and>
         curriculum (start ops self) = snd (sample ops (curriculum self) (num_envs self)) \<and>
         queued_tasks (start ops self) = queued_tasks self \<and>
         update_thread (start ops self) = LoopHead \<and>
         should_update (start ops self)"
  using assms by (simp add: start_fields)

theorem start_seeds_each_worker_witness:
  "length (fst (sample const_ops (curriculum one_worker) (num_envs one_worker))) =
     num_envs one_worker \<and>
   task_queue (start const_ops one_worker) = [\<lparr>next_task = 0, added_tasks_key = None\<rparr>] \<and>
   length (task_queue (start const_ops one_worker)) = 1 \<and>
   queued_tasks (start const_ops one_worker) = 0"
proof -
  have len: "length (fst (sample const_ops (curriculum one_worker) (num_envs one_worker))) =
      num_envs one_worker"
    by (simp add: const_ops_def one_worker_def MultiProcessingCurriculumWrapper_init_def)
  from start_seeds_each_worker [OF len] len show ?thesis
    by (simp add: const_ops_def one_worker_def MultiProcessingCurriculumWrapper_init_def)
qed

lemma drain_step:
  assumes "update_thread self = Draining r" and "update_queue self = Some (item # rest)"
  shows "thread_step ops self =
     self\<lparr>update_queue := Some rest,
          consumed := consumed self @ as_batch item,
          update_thread := Draining (r + requests_in (as_batch item)),
          queued_tasks := queued_tasks self - int (requests_in (as_batch item)),
          curriculum := batch_update_curriculum ops (curriculum self) (as_batch item)\<rparr>"
  using assms by (simp add: thread_step_def Let_def)

lemma drain_steps:
  assumes "update_thread self = Draining r" and "update_queue self = Some q"
  shows "curriculum ((thread_step ops ^^ length q) self) =
           fold (\<lambda>item c. batch_update_curriculum ops c (as_batch item)) q (curriculum self) \<and>
         update_thread ((thread_step ops ^^ length q) self) =
           Draining (r + sum_list (map (\<lambda>item. requests_in (as_batch item)) q)) \<and>
         update_queue ((thread_step ops ^^ length q) self) = Some []"
  using assms
proof (induction q arbitrary: self r)
  case Nil
  then show ?case by simp
next
  case (Cons item rest)
  let ?s = "thread_step ops self"
  have step: "?s = self\<lparr>update_queue := Some rest,
          consumed := consumed self @ as_batch item,
          update_thread := Draining (r + requests_in (as_batch item)),
          queued_tasks := queued_tasks self - int (requests_in (as_batch item)),
          curriculum := batch_update_curriculum ops (curriculum self) (as_batch item)\<rparr>"
    using Cons.prems by (rule drain_step)
  have t: "update_thread ?s = Draining (r + requests_in (as_batch item))"
    and q: "update_queue ?s = Some rest"
    and c: "curriculum ?s = batch_update_curriculum ops (curriculum self) (as_batch item)"
    by (simp_all add: step)
  from Cons.IH [OF t q] c show ?case
    by (simp add: funpow_swap1 add.assoc)
qed

text \<open>
  C8. While the thread drains the update queue, every item is handed whole to
  \<open>batch_update_curriculum\<close>, in order and whatever its flags; the count of requested
  tasks grows by the entries whose \<open>request_sample\<close> is present and true, so an absent
  key counts as false; a bare update is the batch of that one update.
\<close>

theorem drain_applies_every_batch:
  assumes "update_thread self = Draining r" and "update_queue self = Some q"
  shows "curriculum ((thread_step ops ^^ length q) self) =
           fold (\<lambda>item c. batch_update_curriculum ops c (as_batch item)) q (curriculum self) \<and>
         update_thread ((thread_step ops ^^ length q) self) =
           Draining (r + sum_list (map (\<lambda>item.
             length (filter (\<lambda>result. request_sample result = Some True) (as_batch item))) q)) \<and>
         as_batch (Single u) = [u]"
  using drain_steps [OF assms, of ops] by (simp add: requests_in_count)


theorem drain_applies_every_batch_witness:
  "update_thread draining = Draining 0 \<and>
   update_queue draining = Some two_items \<and>
   curriculum ((thread_step logging_ops ^^ length two_items) draining) =
     [[\<lparr>request_sample = None, outcome = ()\<rparr>],
      [\<lparr>request_sample = Some True, outcome = ()\<rparr>,
       \<lparr>request_sample = Some False, outcome = ()\<rparr>]] \<and>
   update_thread ((thread_step logging_ops ^^ length two_items) draining) = Draining 1"
proof -
  have t: "update_thread draining = Draining 0"
    by (simp add: draining_def)
  have q: "update_queue draining = Some two_items"
    by (simp add: draining_def MultiProcessingCurriculumWrapper_init_def)
  have c: "curriculum draining = []"
    by (simp add: draining_def MultiProcessingCurriculumWrapper_init_def)
  from drain_applies_every_batch [OF t q, of logging_ops] t q show ?thesis
    by (simp add: c two_items_def logging_ops_def)
qed

section \<open>Properties of the actor engine\<close>

text \<open>
  The closure of \<open>remote_call\<close> compares a method object with a function, so its
  forwarding branch is never taken: a decorated operation returns \<open>None\<close> and
  reaches no actor.
\<close>

lemma remote_call_never_forwards:
  "remote_call env decorated func args self = (Inr None, self) \<or>
   remote_call env decorated func args self = (Inl AttributeError, self)"
  by (simp add: remote_call_def Let_def split: option.splits)

lemma decorated_returns_none:
  assumes "name \<in> set facade_methods" and "name \<in> decorated"
  shows "call_method env decorated name args self = (Inr None, self)"
  using assms
  by (auto simp: call_method_def getattr_RayCurriculumWrapper_def getattr_CurriculumWrapper_def
      remote_call_def Let_def split: option.splits if_splits)

text \<open>
  C9 fails on the code. \<open>complete_task\<close> is an operation of the facade that
  \<open>RayCurriculumWrapper\<close> does not override. Whatever set of functions the class
  decorator has wrapped, calling it on a new wrapper leaves the actor as it was (no
  remote call is served) and returns \<open>None\<close> or raises: the closure does not forward,
  and the inherited body calls the actor method without \<open>.remote\<close>.
\<close>

theorem unmodified_operation_not_forwarded:
  "snd (call_method env decorated ''complete_task'' args (make_ray_curriculum decorated cur)) =
     make_ray_curriculum decorated cur \<and>
   (fst (call_method env decorated ''complete_task'' args (make_ray_curriculum decorated cur)) =
      Inr None \<or>
    fst (call_method env decorated ''complete_task'' args (make_ray_curriculum decorated cur)) =
      Inl TypeError \<or>
    fst (call_method env decorated ''complete_task'' args (make_ray_curriculum decorated cur)) =
      Inl AttributeError)"
proof (cases "''complete_task'' \<in> decorated")
  case True
  have "''complete_task'' \<in> set facade_methods"
    by (simp add: facade_methods_def)
  then show ?thesis
    using True by (simp add: decorated_returns_none)
next
  case False
  then have "call_method env decorated ''complete_task'' args (make_ray_curriculum decorated cur) =
      direct_call ''complete_task'' args (make_ray_curriculum decorated cur)"
    by (simp add: call_method_def getattr_RayCurriculumWrapper_def getattr_CurriculumWrapper_def
        overrides_def facade_methods_def call_def_def)
  then show ?thesis
    by (simp add: direct_call_def split: option.splits)
qed

text \<open>
  An operation that the class writes out with \<open>ray.get\<close> and \<open>.remote\<close> is
  forwarded, as long as it is left undecorated.
\<close>

lemma explicit_sample_is_forwarded:
  assumes "''sample'' \<notin> decorated" and "''__init__'' \<notin> decorated"
  shows "call_method env decorated ''sample'' args (make_ray_curriculum decorated cur) =
     (Inr (fst (remote_method env ''sample'' args cur)),
      \<lparr>actor = Some (snd (remote_method env ''sample'' args cur)),
       served = [(''sample'', args)], ray_added_tasks = []\<rparr>)"
  using assms
  by (simp add: call_method_def getattr_RayCurriculumWrapper_def overrides_def call_def_def
      ray_get_remote_def make_ray_curriculum_def split: prod.splits)

end
